theory Spec2Isabelle
  imports Main "HOL-Library.Sublist"
begin

section \<open>The action and event core of fireplace (src/fireplace/actions.py)\<close>

text \<open>
  Python objects are referred to by reference.  An entity (card, player, hero) is a
  reference of type \<open>ent\<close>; an \<open>Action\<close> instance lives in a heap of action objects and
  is referred to by its address.  The Python operator \<open>is\<close> is equality of references.
\<close>

type_synonym ent = nat

subsection \<open>Values and exceptions\<close>

text \<open>
  The Python values that are passed around as action arguments: \<open>None\<close>, integers,
  strings (card identifiers), references to entities, to selectors and lazy values of the
  DSL (both evaluated by the DSL, which is not part of this file), references to action
  objects, and lists or tuples of values.
\<close>

datatype pyval =
    PNone
  | PInt int
  | PStr string
  | PEnt ent
  | PSel nat
  | PLazy nat
  | PAct nat
  | PList "pyval list"

datatype error = InvalidAction | AssertionError | IndexError | AttributeError | TypeError

text \<open>The outcome of a call: a returned value or a raised exception.\<close>

datatype 'a res = Ret 'a | Raise error

subsection \<open>Action classes\<close>

datatype game_action =
    Attack | BeginTurn | Concede | Deaths | Death | EndTurn | Joust | GenericChoice
  | MulliganChoice | Play | Activate | Overload

datatype targeted_action =
    Buff | Bounce | CopyDeathrattles | Counter | Predamage | Damage | Deathrattle
  | Battlecry | Destroy | Discard | Discover | Draw | Fatigue | ForceDraw | DrawUntil
  | FullHeal | GainArmor | GainMana | GainEmptyMana | Give | Hit | Heal | ManaThisTurn
  | Mill | Morph | FillMana | Retarget | Reveal | SetCurrentHealth | SetTag | UnsetTag
  | Silence | Summon | Shuffle | Swap | SwapHealth | Steal | UnlockOverload

text \<open>
  The class of an action object: the three base classes, or one of the concrete classes,
  each a direct subclass of \<open>GameAction\<close> or of \<open>TargetedAction\<close>.
\<close>

datatype action_class =
    Action
  | GameAction
  | TargetedAction
  | GameActionSub game_action
  | TargetedActionSub targeted_action

text \<open>\<open>issubclass c d\<close>: what \<open>isinstance(x, d)\<close> answers for an instance \<open>x\<close> of class \<open>c\<close>.\<close>

fun issubclass :: "action_class \<Rightarrow> action_class \<Rightarrow> bool" where
  "issubclass c Action = True"
| "issubclass (GameActionSub g) GameAction = True"
| "issubclass (TargetedActionSub t) TargetedAction = True"
| "issubclass c d = (c = d)"

subsection \<open>Action objects\<close>

text \<open>The two phases of a broadcast, \<open>EventListener.ON\<close> and \<open>EventListener.AFTER\<close>.\<close>

datatype phase = ON | AFTER

text \<open>
  The instance attributes of an action.  \<open>args\<close> and \<open>kwargs\<close> are the attributes
  \<open>_args\<close> and \<open>_kwargs\<close>; \<open>times_val\<close> is the attribute \<open>times\<close>.  \<open>source\<close> and
  \<open>trigger_index\<close> exist only on instances of \<open>TargetedAction\<close>: \<open>None\<close> here means
  that the attribute is absent, \<open>Some PNone\<close> that it holds Python's \<open>None\<close>.
  An entry of \<open>event_queue\<close> is a pair \<open>(obj, args)\<close> as \<open>queue_broadcast\<close> stores
  it: the address of the action \<open>obj\<close>, and \<open>args\<close> split into the source entity, the
  phase and the broadcast arguments (every call of \<open>queue_broadcast\<close> in the file passes
  \<open>(source, EventListener.ON, ...)\<close>).
\<close>

record action_obj =
  cls :: action_class
  args :: "pyval list"
  kwargs :: "(string \<times> pyval) list"
  callback :: "pyval list"
  times_val :: pyval
  event_queue :: "(nat \<times> ent \<times> phase \<times> pyval list) list"
  source :: "pyval option"
  trigger_index :: "int option"

text \<open>\<open>Action.__init__\<close>\<close>

definition Action_init :: "action_class \<Rightarrow> pyval list \<Rightarrow> (string \<times> pyval) list \<Rightarrow> action_obj" where
  "Action_init c as kws =
     \<lparr>cls = c, args = as, kwargs = kws, callback = [], times_val = PInt 1,
      event_queue = [], source = None, trigger_index = None\<rparr>"

text \<open>
  \<open>TargetedAction.__init__\<close>: the keyword \<open>source\<close> is popped from the keyword arguments
  before \<open>Action.__init__\<close> stores them.
\<close>

definition TargetedAction_init :: "action_class \<Rightarrow> pyval list \<Rightarrow> (string \<times> pyval) list \<Rightarrow> action_obj" where
  "TargetedAction_init c as kws =
     (Action_init c as (filter (\<lambda>kv. fst kv \<noteq> ''source'') kws))
       \<lparr>source := Some (case map_of kws ''source'' of None \<Rightarrow> PNone | Some v \<Rightarrow> v),
        trigger_index := Some 0\<rparr>"

text \<open>\<open>cls(*args, **kwargs)\<close>: the constructor the class inherits.\<close>

definition construct :: "action_class \<Rightarrow> pyval list \<Rightarrow> (string \<times> pyval) list \<Rightarrow> action_obj" where
  "construct c as kws =
     (if issubclass c TargetedAction then TargetedAction_init c as kws else Action_init c as kws)"

text \<open>
  What every constructed object satisfies: the stored keyword arguments of an instance of
  \<open>TargetedAction\<close> never hold the key \<open>source\<close>, since its constructor pops it.
\<close>

definition constructed :: "action_obj \<Rightarrow> bool" where
  "constructed a =
     (if issubclass (cls a) TargetedAction then ''source'' \<notin> set (map fst (kwargs a)) else True)"

text \<open>The heap of action objects: an address is an index, a new object is appended.\<close>

type_synonym heap = "action_obj list"

definition alloc :: "heap \<Rightarrow> action_obj \<Rightarrow> nat \<times> heap" where
  "alloc h obj = (length h, h @ [obj])"

text \<open>
  \<open>Action.then\<close>:
  \<^verbatim>\<open>
  ret = self.__class__(*self._args, **self._kwargs)
  ret.callback = args
  ret.times = self.times
  return ret
  \<close>
\<close>

definition Action_then :: "heap \<Rightarrow> nat \<Rightarrow> pyval list \<Rightarrow> nat \<times> heap" where
  "Action_then h self rs =
     (let me = h ! self;
          (ret, h1) = alloc h (construct (cls me) (args me) (kwargs me));
          h2 = h1[ret := (h1 ! ret)\<lparr>callback := rs\<rparr>];
          h3 = h2[ret := (h2 ! ret)\<lparr>times_val := times_val (h2 ! self)\<rparr>]
      in (ret, h3))"

text \<open>
  \<open>TargetedAction.__mul__\<close>:
  \<^verbatim>\<open>
  self.times = value
  return self
  \<close>
\<close>

definition TargetedAction_mul :: "heap \<Rightarrow> nat \<Rightarrow> pyval \<Rightarrow> nat \<times> heap" where
  "TargetedAction_mul h self v = (self, h[self := (h ! self)\<lparr>times_val := v\<rparr>])"

subsection \<open>Pattern matching of triggers\<close>

text \<open>
  \<open>Action.matches(self, source, args)\<close>:
  \<^verbatim>\<open>
  for arg, match in zip(args, self._args):
      if match is None: continue
      if arg is None: return False
      res = match.eval([arg], source)
      if not res or res[0] is not arg: return False
  return True
  \<close>
  The pattern arguments \<open>self._args\<close> are values as the action stores them.  A broadcast
  argument is compared with \<open>is\<close>, so it is a reference to an object, not a value: it
  is \<open>None\<close> (the one object \<open>None\<close>) or \<open>Some r\<close> with \<open>r\<close> of a type \<open>'r\<close> of
  references, two of which are equal exactly when they refer to the same object.

  Only a selector has the method \<open>eval(entities, source)\<close>; the evaluation of the DSL is
  not in this file and is the parameter \<open>ev\<close>, which returns a list.  A pattern argument
  of any other kind raises \<open>AttributeError\<close> at \<open>match.eval\<close>: an int, a string or a
  list has no such attribute, neither has an entity or a lazy value, and the \<open>eval\<close> of
  a \<open>TargetedAction\<close> sends \<open>eval\<close> on to the list \<open>[arg]\<close> that it is given as selector.
\<close>

fun matches_loop ::
  "(pyval \<Rightarrow> 'r list \<Rightarrow> 's \<Rightarrow> 'r list) \<Rightarrow> 's \<Rightarrow> ('r option \<times> pyval) list \<Rightarrow> bool res" where
  "matches_loop ev src [] = Ret True"
| "matches_loop ev src ((arg, match) # rest) =
     (if match = PNone then matches_loop ev src rest
      else (case arg of
              None \<Rightarrow> Ret False
            | Some a \<Rightarrow>
                (case match of
                   PSel n \<Rightarrow>
                     (let r = ev (PSel n) [a] src in
                      if r = [] \<or> hd r \<noteq> a then Ret False else matches_loop ev src rest)
                 | _ \<Rightarrow> Raise AttributeError)))"

definition Action_matches ::
  "(pyval \<Rightarrow> 'r list \<Rightarrow> 's \<Rightarrow> 'r list) \<Rightarrow> pyval list \<Rightarrow> 's \<Rightarrow> 'r option list \<Rightarrow> bool res" where
  "Action_matches ev self_args src bargs = matches_loop ev src (zip bargs self_args)"

section \<open>The game state and the effects\<close>

subsection \<open>Enumerations and entity attributes\<close>

text \<open>
  The members of \<open>hearthstone.enums.Zone\<close> and \<open>CardType\<close> (the member \<open>INVALID\<close> of
  each is left out).
\<close>

datatype zone = PLAY | DECK | HAND | GRAVEYARD | REMOVEDFROMGAME | SETASIDE | SECRET

datatype card_type =
  GAME | PLAYER | HERO | MINION | SPELL | ENCHANTMENT | WEAPON | ITEM | TOKEN | HERO_POWER

text \<open>
  An \<open>EventListener\<close>.  Of its trigger, an action, only the class and \<open>_args\<close> are read
  (by \<open>isinstance\<close> and \<open>matches\<close>), so the listener holds these two by value.  The
  pattern arguments of a listener are each \<open>None\<close> or a selector, \<open>Some n\<close> for the
  selector \<open>PSel n\<close>: the type leaves out the listeners on which \<open>matches\<close> raises, so
  that a broadcast is not left by an exception of a pattern.
\<close>

record listener =
  trigger_cls :: action_class
  trigger_args :: "nat option list"
  actions :: "pyval list"
  at_phase :: phase
  once :: bool

text \<open>The attributes \<open>player\<close> and \<open>cards\<close> that \<open>GenericChoice.do\<close> stores on the choice.\<close>

record choice_obj =
  ch_player :: ent
  ch_cards :: "ent list"

text \<open>
  The attributes of the game and of its entities that the modelled methods read or write,
  each as a function of the entity.  A plain attribute assignment updates the function.
  \<open>card_type\<close> is the attribute \<open>type\<close>.
\<close>

record world =
  entities :: "ent list"
  hands :: "ent list"
  events :: "ent \<Rightarrow> listener list"
  card_type :: "ent \<Rightarrow> card_type"
  controller :: "ent \<Rightarrow> ent"
  hero :: "ent \<Rightarrow> ent"
  hand :: "ent \<Rightarrow> ent list"
  deck :: "ent \<Rightarrow> ent list"
  max_hand_size :: "ent \<Rightarrow> int"
  choice :: "ent \<Rightarrow> choice_obj option"
  cant_fatigue :: "ent \<Rightarrow> bool"
  fatigue_counter :: "ent \<Rightarrow> int"
  predamage :: "ent \<Rightarrow> int"
  incoming_damage_multiplier :: "ent \<Rightarrow> int"
  stealthed :: "ent \<Rightarrow> bool"
  atk :: "ent \<Rightarrow> int"
  attack_target :: "ent \<Rightarrow> ent option"
  defending :: "ent \<Rightarrow> bool"
  num_attacks :: "ent \<Rightarrow> int"
  should_exit_combat :: "ent \<Rightarrow> bool"
  proposed_attacker :: "ent option"
  proposed_defender :: "ent option"

subsection \<open>The objects of a broadcast\<close>

text \<open>
  The arguments of a broadcast as objects.  An entity, a selector, a lazy value or an
  action is held by reference in \<open>pyval\<close>: the reference is the object (\<open>Ref\<close>).  An int,
  a string or a list has an identity that its value does not give: the object that the
  broadcast holds at position \<open>i\<close> of its arguments is \<open>Held i v\<close>, with its value \<open>v\<close>;
  an object of these kinds that comes from elsewhere, a copy or a computed result, is
  \<open>Made v\<close>, and is never the object that a broadcast holds, whatever its value.
  \<open>arg_refs\<close> gives the references of the arguments of a broadcast, \<open>None\<close> for \<open>None\<close>.
\<close>

datatype oref = Ref pyval | Held nat pyval | Made pyval

fun arg_ref :: "nat \<Rightarrow> pyval \<Rightarrow> oref option" where
  "arg_ref i PNone = None"
| "arg_ref i (PInt n) = Some (Held i (PInt n))"
| "arg_ref i (PStr cs) = Some (Held i (PStr cs))"
| "arg_ref i (PList xs) = Some (Held i (PList xs))"
| "arg_ref i v = Some (Ref v)"

definition arg_refs :: "pyval list \<Rightarrow> oref option list" where
  "arg_refs bargs = map (\<lambda>(i, v). arg_ref i v) (zip [0 ..< length bargs] bargs)"

text \<open>The pattern arguments of a listener as the values that its trigger stores.\<close>

definition pattern_args :: "nat option list \<Rightarrow> pyval list" where
  "pattern_args ps = map (\<lambda>p. case p of None \<Rightarrow> PNone | Some n \<Rightarrow> PSel n) ps"

subsection \<open>The collaborators\<close>

text \<open>
  The entity layer, the queue manager and the DSL are not in actions.py.  What a call
  into them does to the world is a parameter of the model: a record of the reactions.
  \<^item> \<open>zone_setter\<close>: the assignment \<open>card.zone = z\<close> (a property with side effects);
  \<^item> \<open>card_discard\<close>, \<open>card_draw\<close>: \<open>card.discard()\<close>, \<open>card.draw()\<close>;
  \<^item> \<open>trigger_event\<close>: \<open>entity.trigger_event(source, event, args)\<close>;
  \<^item> \<open>queue_actions\<close>: \<open>game.queue_actions(source, actions, event_args)\<close>, which is
    given the heap to read the queued actions and returns the list of results;
  \<^item> \<open>action_trigger\<close>: \<open>action.trigger(source)\<close> of an action whose class is resolved
    at run time and whose \<open>trigger\<close> is not modelled here;
  \<^item> \<open>hit\<close>: \<open>target._hit(amount)\<close>, which returns the amount dealt;
  \<^item> \<open>manager_action\<close>, \<open>manager_action_end\<close>: the manager's hooks;
  \<^item> \<open>process_deaths\<close>, \<open>end_turn\<close>: \<open>game.process_deaths()\<close>, \<open>game._end_turn()\<close>;
  \<^item> \<open>selector_eval\<close>: \<open>selector.eval(entities, source)\<close> on a list of candidate
    objects, which returns a list of objects,
    \<open>selector_eval_game\<close>: \<open>selector.eval(source.game, source)\<close>,
    \<open>lazy_evaluate\<close>: \<open>lazy.evaluate(source)\<close>.
  The reactions are total: an exception raised inside a collaborator is not modelled.
  They act on the world, not on the action objects; the three evaluations of the DSL
  read the world and leave it as it is.
\<close>

record ext =
  zone_setter :: "ent \<Rightarrow> zone \<Rightarrow> world \<Rightarrow> world"
  card_discard :: "ent \<Rightarrow> world \<Rightarrow> world"
  card_draw :: "ent \<Rightarrow> world \<Rightarrow> world"
  trigger_event :: "ent \<Rightarrow> ent \<Rightarrow> listener \<Rightarrow> pyval list \<Rightarrow> world \<Rightarrow> world"
  queue_actions :: "ent \<Rightarrow> pyval list \<Rightarrow> pyval list option \<Rightarrow> heap \<Rightarrow> world \<Rightarrow> pyval list \<times> world"
  action_trigger :: "pyval \<Rightarrow> ent \<Rightarrow> heap \<Rightarrow> world \<Rightarrow> pyval \<times> world"
  hit :: "ent \<Rightarrow> int \<Rightarrow> world \<Rightarrow> int \<times> world"
  manager_action :: "pyval \<Rightarrow> ent \<Rightarrow> pyval list \<Rightarrow> world \<Rightarrow> world"
  manager_action_end :: "pyval \<Rightarrow> ent \<Rightarrow> pyval list \<Rightarrow> world \<Rightarrow> world"
  process_deaths :: "world \<Rightarrow> world"
  end_turn :: "world \<Rightarrow> world"
  selector_eval :: "pyval \<Rightarrow> oref list \<Rightarrow> ent \<Rightarrow> world \<Rightarrow> oref list"
  selector_eval_game :: "pyval \<Rightarrow> ent \<Rightarrow> world \<Rightarrow> pyval list"
  lazy_evaluate :: "pyval \<Rightarrow> ent \<Rightarrow> world \<Rightarrow> pyval"

text \<open>
  Every call that the modelled code makes into a collaborator is recorded, in order, in a
  trace which no collaborator can change.  Calls that a collaborator makes itself while
  it reacts are not in the trace.
\<close>

datatype call =
    SetZone ent zone
  | CardDiscard ent
  | CardDraw ent
  | TriggerEvent ent ent listener "pyval list"
  | QueueActions ent "pyval list" "pyval list option"
  | TriggerAction pyval ent
  | HitCall ent int
  | ManagerAction pyval ent "pyval list"
  | ManagerActionEnd pyval ent "pyval list"
  | ProcessDeaths
  | EndTurnCall

record state =
  wld :: world
  objs :: heap
  trace :: "call list"

text \<open>
  The calls of the trace other than the notifications of listeners: what the modelled
  code itself asked of the entity layer and of the queue manager.
\<close>

fun is_trigger_event :: "call \<Rightarrow> bool" where
  "is_trigger_event (TriggerEvent e src ev bargs) = True"
| "is_trigger_event c = False"

definition own_calls :: "state \<Rightarrow> call list" where
  "own_calls s = filter (\<lambda>c. \<not> is_trigger_event c) (trace s)"

definition ext_do :: "call \<Rightarrow> (world \<Rightarrow> world) \<Rightarrow> state \<Rightarrow> state" where
  "ext_do c f s = s\<lparr>wld := f (wld s), trace := trace s @ [c]\<rparr>"

definition set_zone :: "ext \<Rightarrow> ent \<Rightarrow> zone \<Rightarrow> state \<Rightarrow> state" where
  "set_zone X e z = ext_do (SetZone e z) (zone_setter X e z)"

definition discard_card :: "ext \<Rightarrow> ent \<Rightarrow> state \<Rightarrow> state" where
  "discard_card X e = ext_do (CardDiscard e) (card_discard X e)"

definition queue_actions_call ::
  "ext \<Rightarrow> ent \<Rightarrow> pyval list \<Rightarrow> pyval list option \<Rightarrow> state \<Rightarrow> pyval list \<times> state" where
  "queue_actions_call X src as ea s =
     (let (r, w) = queue_actions X src as ea (objs s) (wld s)
      in (r, s\<lparr>wld := w, trace := trace s @ [QueueActions src as ea]\<rparr>))"


text \<open>Creating an action inside a method: \<open>Cls(*args)\<close> allocates a new object.\<close>

definition new_action :: "action_class \<Rightarrow> pyval list \<Rightarrow> state \<Rightarrow> nat \<times> state" where
  "new_action c as s = (length (objs s), s\<lparr>objs := objs s @ [construct c as []]\<rparr>)"

subsection \<open>Broadcasting\<close>

text \<open>
  \<open>Action._broadcast(entity, source, at, *args)\<close>, as the classes inherit it that do
  not override it (\<open>Play\<close> and \<open>Summon\<close> do; see \<open>obj_broadcast\<close> below).  \<open>c\<close> is
  the class of the broadcasting action.  The loop runs over the listeners that the
  entity has when it is reached.  \<open>matches\<close> is given the arguments as objects and
  the pattern of the listener; on such a pattern it returns (\<open>pattern_matches_returns\<close>).
\<close>

fun broadcast_events ::
  "ext \<Rightarrow> action_class \<Rightarrow> ent \<Rightarrow> ent \<Rightarrow> phase \<Rightarrow> pyval list \<Rightarrow> listener list \<Rightarrow> state \<Rightarrow> state" where
  "broadcast_events X c entity src ph bargs [] s = s"
| "broadcast_events X c entity src ph bargs (ev # evs) s =
     broadcast_events X c entity src ph bargs evs
       (if at_phase ev \<noteq> ph then s
        else if issubclass (trigger_cls ev) c \<and>
                Action_matches (\<lambda>m xs e. selector_eval X m xs e (wld s))
                  (pattern_args (trigger_args ev)) entity (arg_refs bargs) = Ret True
        then ext_do (TriggerEvent entity src ev bargs) (trigger_event X entity src ev bargs) s
        else s)"

definition Action_broadcast_entity ::
  "ext \<Rightarrow> action_class \<Rightarrow> ent \<Rightarrow> ent \<Rightarrow> phase \<Rightarrow> pyval list \<Rightarrow> state \<Rightarrow> state" where
  "Action_broadcast_entity X c entity src ph bargs s =
     broadcast_events X c entity src ph bargs (events (wld s) entity) s"

fun broadcast_entities ::
  "ext \<Rightarrow> action_class \<Rightarrow> ent \<Rightarrow> phase \<Rightarrow> pyval list \<Rightarrow> ent list \<Rightarrow> state \<Rightarrow> state" where
  "broadcast_entities X c src ph bargs [] s = s"
| "broadcast_entities X c src ph bargs (e # es) s =
     broadcast_entities X c src ph bargs es (Action_broadcast_entity X c e src ph bargs s)"

text \<open>
  \<open>Action.broadcast(source, at, *args)\<close>: first every entity of \<open>game.entities\<close>, then
  every card of \<open>game.hands\<close>, each list read when its loop starts.
\<close>

definition Action_broadcast ::
  "ext \<Rightarrow> action_class \<Rightarrow> ent \<Rightarrow> phase \<Rightarrow> pyval list \<Rightarrow> state \<Rightarrow> state" where
  "Action_broadcast X c src ph bargs s =
     (let s1 = broadcast_entities X c src ph bargs (entities (wld s)) s
      in broadcast_entities X c src ph bargs (hands (wld s1)) s1)"

subsection \<open>Game actions\<close>

text \<open>\<open>Action.get_args\<close>: the stored arguments.\<close>

definition Action_get_args :: "nat \<Rightarrow> ent \<Rightarrow> state \<Rightarrow> pyval list" where
  "Action_get_args self src s = args (objs s ! self)"

text \<open>
  \<open>GameAction.trigger\<close>, with the method \<open>do\<close> of the class as a parameter:
  \<^verbatim>\<open>
  args = self.get_args(source)
  source.game.manager.action(self, source, *args)
  self.do(source, *args)
  source.game.manager.action_end(self, source, *args)
  source.game.process_deaths()
  \<close>
  An exception raised by \<open>do\<close> ends the call there.
\<close>

definition GameAction_trigger ::
  "ext \<Rightarrow> (ext \<Rightarrow> ent \<Rightarrow> pyval list \<Rightarrow> state \<Rightarrow> pyval res \<times> state) \<Rightarrow> nat \<Rightarrow> ent \<Rightarrow> state
     \<Rightarrow> pyval res \<times> state" where
  "GameAction_trigger X do_m self src s =
     (let as = Action_get_args self src s;
          s1 = ext_do (ManagerAction (PAct self) src as) (manager_action X (PAct self) src as) s
      in case do_m X src as s1 of
           (Raise e, s2) \<Rightarrow> (Raise e, s2)
         | (Ret v, s2) \<Rightarrow>
             (let s3 = ext_do (ManagerActionEnd (PAct self) src as)
                         (manager_action_end X (PAct self) src as) s2;
                  s4 = ext_do ProcessDeaths (process_deaths X) s3
              in (Ret PNone, s4)))"

text \<open>
  \<open>EndTurn.do(source, player)\<close>:
  \<^verbatim>\<open>
  if player.choice:
      raise InvalidAction(...)
  self.broadcast(source, EventListener.ON, player)
  source.game._end_turn()
  \<close>
  A choice is an object without \<open>__bool__\<close> or \<open>__len__\<close>: it is true whenever it is
  not \<open>None\<close>.  An exception leaves the state as it is when raised.
\<close>

definition EndTurn_do :: "ext \<Rightarrow> ent \<Rightarrow> ent \<Rightarrow> state \<Rightarrow> pyval res \<times> state" where
  "EndTurn_do X src player s =
     (if choice (wld s) player \<noteq> None then (Raise InvalidAction, s)
      else (let s1 = Action_broadcast X (GameActionSub EndTurn) src ON [PEnt player] s;
                s2 = ext_do EndTurnCall (end_turn X) s1
            in (Ret PNone, s2)))"

text \<open>\<open>self.do(source, *args)\<close> for \<open>EndTurn\<close>: one argument, which must have a \<open>choice\<close>.\<close>

definition EndTurn_do_args :: "ext \<Rightarrow> ent \<Rightarrow> pyval list \<Rightarrow> state \<Rightarrow> pyval res \<times> state" where
  "EndTurn_do_args X src as s =
     (case as of
        [PEnt player] \<Rightarrow> EndTurn_do X src player s
      | [_] \<Rightarrow> (Raise AttributeError, s)
      | _ \<Rightarrow> (Raise TypeError, s))"

definition EndTurn_trigger :: "ext \<Rightarrow> nat \<Rightarrow> ent \<Rightarrow> state \<Rightarrow> pyval res \<times> state" where
  "EndTurn_trigger X self src s = GameAction_trigger X EndTurn_do_args self src s"

text \<open>
  \<open>GenericChoice.do(source, player, cards)\<close>:
  \<^verbatim>\<open>
  player.choice = self
  self.player = player
  self.cards = cards
  \<close>
\<close>

definition GenericChoice_do :: "ent \<Rightarrow> ent \<Rightarrow> ent list \<Rightarrow> state \<Rightarrow> pyval res \<times> state" where
  "GenericChoice_do src player cards s =
     (Ret PNone,
      s\<lparr>wld := (wld s)\<lparr>choice := (choice (wld s))
                 (player := Some \<lparr>ch_player = player, ch_cards = cards\<rparr>)\<rparr>\<rparr>)"

text \<open>
  \<open>GenericChoice.choose(card)\<close>:
  \<^verbatim>\<open>
  for _card in self.cards:
      if _card is card:
          if card.type == CardType.HERO_POWER:
              _card.zone = Zone.PLAY
          elif len(self.player.hand) < self.player.max_hand_size:
              _card.zone = Zone.HAND
          else:
              _card.discard()
      else:
          _card.discard()
  self.player.choice = None
  \<close>
\<close>

fun choose_loop :: "ext \<Rightarrow> ent \<Rightarrow> ent \<Rightarrow> ent list \<Rightarrow> state \<Rightarrow> state" where
  "choose_loop X player crd [] s = s"
| "choose_loop X player crd (c # cs) s =
     choose_loop X player crd cs
       (if c = crd then
          (if card_type (wld s) crd = HERO_POWER then set_zone X c PLAY s
           else if int (length (hand (wld s) player)) < max_hand_size (wld s) player
                then set_zone X c HAND s
                else discard_card X c s)
        else discard_card X c s)"

definition GenericChoice_choose :: "ext \<Rightarrow> choice_obj \<Rightarrow> ent \<Rightarrow> state \<Rightarrow> pyval res \<times> state" where
  "GenericChoice_choose X self crd s =
     (let s1 = choose_loop X (ch_player self) crd (ch_cards self) s
      in (Ret PNone,
          s1\<lparr>wld := (wld s1)\<lparr>choice := (choice (wld s1))(ch_player self := None)\<rparr>\<rparr>))"

text \<open>
  \<open>Attack.do(source, attacker, defender)\<close>.  \<open>Attack_announce\<close> is its beginning, up to
  and including the broadcast before the attack:
  \<^verbatim>\<open>
  attacker.attack_target = defender
  defender.defending = True
  source.game.proposed_attacker = attacker
  source.game.proposed_defender = defender
  self.broadcast(source, EventListener.ON, attacker, defender)
  \<close>
  and \<open>Attack_do\<close> goes on from there:
  \<^verbatim>\<open>
  defender = source.game.proposed_defender
  source.game.proposed_attacker = None
  source.game.proposed_defender = None
  if attacker.should_exit_combat:
      attacker.attack_target = None
      defender.defending = False
      return
  assert attacker is not defender
  def_atk = defender.atk
  source.game.queue_actions(attacker, [Hit(defender, attacker.atk)])
  if def_atk:
      source.game.queue_actions(defender, [Hit(attacker, def_atk)])
  self.broadcast(source, EventListener.AFTER, attacker, defender)
  attacker.attack_target = None
  defender.defending = False
  attacker.num_attacks += 1
  \<close>
  The defender is read back from \<open>game.proposed_defender\<close> after the broadcast; if a
  reaction left \<open>None\<close> there, the next use of it raises \<open>AttributeError\<close>.
\<close>

definition Attack_announce :: "ext \<Rightarrow> ent \<Rightarrow> ent \<Rightarrow> ent \<Rightarrow> state \<Rightarrow> state" where
  "Attack_announce X src attacker defender s =
     (let s1 = s\<lparr>wld := (wld s)\<lparr>attack_target := (attack_target (wld s))(attacker := Some defender)\<rparr>\<rparr>;
          s2 = s1\<lparr>wld := (wld s1)\<lparr>defending := (defending (wld s1))(defender := True)\<rparr>\<rparr>;
          s3 = s2\<lparr>wld := (wld s2)\<lparr>proposed_attacker := Some attacker\<rparr>\<rparr>;
          s4 = s3\<lparr>wld := (wld s3)\<lparr>proposed_defender := Some defender\<rparr>\<rparr>
      in Action_broadcast X (GameActionSub Attack) src ON [PEnt attacker, PEnt defender] s4)"

definition Attack_do :: "ext \<Rightarrow> ent \<Rightarrow> ent \<Rightarrow> ent \<Rightarrow> state \<Rightarrow> pyval res \<times> state" where
  "Attack_do X src attacker defender s =
     (let s5 = Attack_announce X src attacker defender s;
          new_defender = proposed_defender (wld s5);
          s6 = s5\<lparr>wld := (wld s5)\<lparr>proposed_attacker := None\<rparr>\<rparr>;
          s7 = s6\<lparr>wld := (wld s6)\<lparr>proposed_defender := None\<rparr>\<rparr>
      in if should_exit_combat (wld s7) attacker then
           (let s8 = s7\<lparr>wld := (wld s7)\<lparr>attack_target := (attack_target (wld s7))(attacker := None)\<rparr>\<rparr>
            in case new_defender of
                 None \<Rightarrow> (Raise AttributeError, s8)
               | Some d \<Rightarrow>
                   (Ret PNone, s8\<lparr>wld := (wld s8)\<lparr>defending := (defending (wld s8))(d := False)\<rparr>\<rparr>))
         else
           (case new_defender of
              None \<Rightarrow> (Raise AttributeError, s7)
            | Some d \<Rightarrow>
                if attacker = d then (Raise AssertionError, s7)
                else
                  (let def_atk = atk (wld s7) d;
                       (h1, s8) = new_action (TargetedActionSub Hit) [PEnt d, PInt (atk (wld s7) attacker)] s7;
                       (r1, s9) = queue_actions_call X attacker [PAct h1] None s8;
                       s11 = (if def_atk \<noteq> 0 then
                                (let (h2, s10) = new_action (TargetedActionSub Hit) [PEnt attacker, PInt def_atk] s9
                                 in snd (queue_actions_call X d [PAct h2] None s10))
                              else s9);
                       s12 = Action_broadcast X (GameActionSub Attack) src AFTER [PEnt attacker, PEnt d] s11;
                       s13 = s12\<lparr>wld := (wld s12)\<lparr>attack_target := (attack_target (wld s12))(attacker := None)\<rparr>\<rparr>;
                       s14 = s13\<lparr>wld := (wld s13)\<lparr>defending := (defending (wld s13))(d := False)\<rparr>\<rparr>;
                       s15 = s14\<lparr>wld := (wld s14)\<lparr>num_attacks :=
                                (num_attacks (wld s14))(attacker := num_attacks (wld s14) attacker + 1)\<rparr>\<rparr>
                   in (Ret PNone, s15))))"

subsection \<open>Targeted actions: the methods \<open>do\<close>\<close>

text \<open>
  \<open>Bounce.do(source, target)\<close>:
  \<^verbatim>\<open>
  if len(target.controller.hand) >= target.controller.max_hand_size:
      return source.game.queue_actions(source, [Destroy(target)])
  else:
      target.zone = Zone.HAND
  \<close>
\<close>

definition Bounce_do :: "ext \<Rightarrow> ent \<Rightarrow> ent \<Rightarrow> state \<Rightarrow> pyval res \<times> state" where
  "Bounce_do X src target s =
     (if int (length (hand (wld s) (controller (wld s) target)))
           \<ge> max_hand_size (wld s) (controller (wld s) target)
      then (let (d, s1) = new_action (TargetedActionSub Destroy) [PEnt target] s;
                (r, s2) = queue_actions_call X src [PAct d] None s1
            in (Ret (PList r), s2))
      else (Ret PNone, set_zone X target HAND s))"

text \<open>
  \<open>Give.do(source, target, cards)\<close>:
  \<^verbatim>\<open>
  ret = []
  if not hasattr(cards, "__iter__"):
      cards = [cards]
  for card in cards:
      if len(target.hand) >= target.max_hand_size:
          continue
      card.controller = target
      card.zone = Zone.HAND
      ret.append(card)
  return ret
  \<close>
  Setting \<open>controller\<close> on a value that is not an entity raises \<open>AttributeError\<close>.
\<close>

fun give_loop :: "ext \<Rightarrow> ent \<Rightarrow> pyval list \<Rightarrow> pyval list \<Rightarrow> state \<Rightarrow> pyval res \<times> state" where
  "give_loop X target [] ret s = (Ret (PList ret), s)"
| "give_loop X target (crd # cards) ret s =
     (if int (length (hand (wld s) target)) \<ge> max_hand_size (wld s) target
      then give_loop X target cards ret s
      else (case crd of
              PEnt c \<Rightarrow>
                (let s1 = s\<lparr>wld := (wld s)\<lparr>controller := (controller (wld s))(c := target)\<rparr>\<rparr>;
                     s2 = set_zone X c HAND s1
                 in give_loop X target cards (ret @ [crd]) s2)
            | _ \<Rightarrow> (Raise AttributeError, s)))"

definition Give_do :: "ext \<Rightarrow> ent \<Rightarrow> ent \<Rightarrow> pyval \<Rightarrow> state \<Rightarrow> pyval res \<times> state" where
  "Give_do X src target cards s =
     give_loop X target
       (case cards of
          PList cs \<Rightarrow> cs
        | PStr cs \<Rightarrow> map (\<lambda>c. PStr [c]) cs
        | _ \<Rightarrow> [cards])
       [] s"








subsection \<open>Damage in two phases\<close>




subsection \<open>The trigger loop of targeted actions\<close>







text \<open>
  The methods that a subclass of \<open>TargetedAction\<close> overrides, as parameters of the loop:
  \<open>get_target_args(source, target)\<close> and \<open>do(source, target, *target_args)\<close>.
\<close>

record methods =
  get_target_args_m :: "ext \<Rightarrow> nat \<Rightarrow> ent \<Rightarrow> pyval \<Rightarrow> state \<Rightarrow> pyval list res \<times> state"
  do_m :: "ext \<Rightarrow> nat \<Rightarrow> ent \<Rightarrow> pyval \<Rightarrow> pyval list \<Rightarrow> state \<Rightarrow> pyval res \<times> state"

text \<open>
  The source redirect at the head of \<open>TargetedAction.trigger\<close>:
  \<^verbatim>\<open>
  if self.source is not None:
      source = self.source.eval(source.game, source)
      assert len(source) == 1
      source = source[0]
  \<close>
  A redirect that is not a selector has no \<open>eval\<close>; a redirected source that is not an
  entity has no \<open>game\<close>.
\<close>

definition resolve_source :: "ext \<Rightarrow> action_obj \<Rightarrow> ent \<Rightarrow> state \<Rightarrow> ent res" where
  "resolve_source X me src s =
     (case source me of
        None \<Rightarrow> Raise AttributeError
      | Some PNone \<Rightarrow> Ret src
      | Some (PSel l) \<Rightarrow>
          (case selector_eval_game X (PSel l) src (wld s) of
             [PEnt e] \<Rightarrow> Ret e
           | [_] \<Rightarrow> Raise AttributeError
           | _ \<Rightarrow> Raise AssertionError)
      | Some _ \<Rightarrow> Raise AttributeError)"
















subsection \<open>Example inputs\<close>

text \<open>
  A selector evaluation in which selector 0 selects every candidate, selector 2 answers
  with an equal object for every candidate (the same reference for a reference, another
  object of the same value for an int, a string or a list), and any other selects none.
\<close>

fun equal_object :: "oref \<Rightarrow> oref" where
  "equal_object (Ref v) = Ref v"
| "equal_object (Held i v) = Made v"
| "equal_object (Made v) = Made v"

definition example_eval :: "pyval \<Rightarrow> oref list \<Rightarrow> ent \<Rightarrow> oref list" where
  "example_eval m xs s =
     (if m = PSel 0 then xs else if m = PSel 2 then map equal_object xs else [])"

text \<open>
  A small game: the players 10 and 11 with the heroes 20 and 21, and cards below 10, of
  which card 4 is a hero power.  Nobody has a card in hand or deck, and a hand holds at
  most three cards.
\<close>

definition example_world :: world where
  "example_world =
     \<lparr>entities = [10, 11, 20, 21, 1, 2, 3, 4],
      hands = [],
      events = (\<lambda>e. []),
      card_type = (\<lambda>e. if e = 10 \<or> e = 11 then PLAYER else if e = 20 \<or> e = 21 then HERO
                        else if e = 4 then HERO_POWER else MINION),
      controller = (\<lambda>e. 10),
      hero = (\<lambda>p. p + 10),
      hand = (\<lambda>p. []),
      deck = (\<lambda>p. []),
      max_hand_size = (\<lambda>p. 3),
      choice = (\<lambda>p. None),
      cant_fatigue = (\<lambda>p. False),
      fatigue_counter = (\<lambda>p. 0),
      predamage = (\<lambda>e. 0),
      incoming_damage_multiplier = (\<lambda>e. 0),
      stealthed = (\<lambda>e. False),
      atk = (\<lambda>e. 2),
      attack_target = (\<lambda>e. None),
      defending = (\<lambda>e. False),
      num_attacks = (\<lambda>e. 0),
      should_exit_combat = (\<lambda>e. False),
      proposed_attacker = None,
      proposed_defender = None\<rparr>"

text \<open>
  Collaborators for the examples.  Assigning a zone moves the card into or out of the
  hand of its controller; discarding takes it out of every hand.  A listener whose
  response is \<open>exit\<close> makes the first broadcast argument leave combat, one whose response
  is \<open>prevent\<close> sets the staged damage of the first broadcast argument to zero.  The
  queue manager and the hooks do nothing, \<open>_hit\<close> deals the amount it is given, and a
  selector selects every candidate.
\<close>

definition example_ext :: ext where
  "example_ext =
     \<lparr>zone_setter = (\<lambda>e z w. w\<lparr>hand := (\<lambda>p. if p = controller w e \<and> z = HAND
                                              then remove1 e (hand w p) @ [e]
                                              else remove1 e (hand w p))\<rparr>),
      card_discard = (\<lambda>e w. w\<lparr>hand := (\<lambda>p. remove1 e (hand w p))\<rparr>),
      card_draw = (\<lambda>e w. w),
      trigger_event = (\<lambda>entity src ev bargs w.
         case bargs of
           PEnt a # rest \<Rightarrow>
             if actions ev = [PStr ''exit'']
             then w\<lparr>should_exit_combat := (should_exit_combat w)(a := True)\<rparr>
             else if actions ev = [PStr ''prevent'']
             then w\<lparr>predamage := (predamage w)(a := 0)\<rparr>
             else w
         | _ \<Rightarrow> w),
      queue_actions = (\<lambda>src as ea h w. ([], w)),
      action_trigger = (\<lambda>a src h w. (PList [], w)),
      hit = (\<lambda>t n w. (n, w)),
      manager_action = (\<lambda>a src as w. w),
      manager_action_end = (\<lambda>a src as w. w),
      process_deaths = (\<lambda>w. w),
      end_turn = (\<lambda>w. w),
      selector_eval = (\<lambda>m xs e w. xs),
      selector_eval_game = (\<lambda>m e w. []),
      lazy_evaluate = (\<lambda>l e w. PNone)\<rparr>"

definition example_state :: state where
  "example_state = \<lparr>wld = example_world, objs = [], trace = []\<rparr>"

text \<open>A heap of two actions: \<open>Hit(sel 3, 2, source=sel 5) * 4\<close> and \<open>EndTurn(sel 1)\<close>.\<close>

definition example_heap :: heap where
  "example_heap =
     [(construct (TargetedActionSub Hit) [PSel 3, PInt 2] [(''source'', PSel 5)])\<lparr>times_val := PInt 4\<rparr>,
      construct (GameActionSub EndTurn) [PSel 1] []]"

text \<open>Player 10 has an open choice among the cards 1, 2 and 3.\<close>

definition open_choice_state :: state where
  "open_choice_state =
     example_state\<lparr>wld := example_world\<lparr>choice :=
       (\<lambda>p. if p = 10 then Some \<lparr>ch_player = 10, ch_cards = [1, 2, 3]\<rparr> else None)\<rparr>\<rparr>"

text \<open>Player 10 holds the cards 5, 6 and 7: the hand is full.\<close>

definition full_hand_state :: state where
  "full_hand_state =
     example_state\<lparr>wld := example_world\<lparr>hand := (\<lambda>p. if p = 10 then [5, 6, 7] else [])\<rparr>\<rparr>"

text \<open>Player 10 holds the cards 5 and 6: one more card fits.\<close>

definition two_cards_state :: state where
  "two_cards_state =
     example_state\<lparr>wld := example_world\<lparr>hand := (\<lambda>p. if p = 10 then [5, 6] else [])\<rparr>\<rparr>"


text \<open>
  Card 3 listens to every attack: before the attack (\<open>ON\<close>), whatever attacker and
  defender are, its response \<open>exit\<close> makes the attacker leave combat.
\<close>

definition exit_listener_state :: state where
  "exit_listener_state =
     example_state\<lparr>wld := example_world\<lparr>events :=
       (\<lambda>e. if e = 3
             then [\<lparr>trigger_cls = GameActionSub Attack, trigger_args = [None, None],
                    actions = [PStr ''exit''], at_phase = ON, once = False\<rparr>]
             else [])\<rparr>\<rparr>"






section \<open>Properties\<close>

subsection \<open>Trigger patterns\<close>

lemma matches_loop_iff:
  "matches_loop ev src ps = Ret True \<longleftrightarrow>
     (\<forall>p \<in> set ps. snd p = PNone \<or>
        (\<exists>a n. fst p = Some a \<and> snd p = PSel n \<and>
               ev (PSel n) [a] src \<noteq> [] \<and> hd (ev (PSel n) [a] src) = a))"
proof (induction ps)
  case Nil
  show ?case by simp
next
  case (Cons p ps)
  obtain arg m where p: "p = (arg, m)" by (cases p)
  show ?case
  proof (cases "m = PNone")
    case True
    then show ?thesis unfolding p using Cons.IH by simp
  next
    case m: False
    show ?thesis
    proof (cases arg)
      case None
      then show ?thesis unfolding p using m by simp
    next
      case (Some a)
      show ?thesis
      proof (cases m)
        case (PSel n)
        then show ?thesis unfolding p using Some Cons.IH by (simp add: Let_def)
      qed (use m Some in \<open>simp_all add: p\<close>)
    qed
  qed
qed

lemma matches_loop_results:
  "matches_loop ev src ps = Ret True \<or> matches_loop ev src ps = Ret False \<or>
   matches_loop ev src ps = Raise AttributeError"
proof (induction ps)
  case Nil
  show ?case by simp
next
  case (Cons p ps)
  obtain arg m where p: "p = (arg, m)" by (cases p)
  show ?case unfolding p using Cons.IH
    by (cases m; cases arg) (simp_all add: Let_def)
qed

lemma matches_loop_append:
  "matches_loop ev src ps = Ret True \<Longrightarrow> matches_loop ev src (ps @ qs) = matches_loop ev src qs"
proof (induction ps)
  case Nil
  show ?case by simp
next
  case (Cons p ps)
  obtain arg m where p: "p = (arg, m)" by (cases p)
  show ?case using Cons.prems Cons.IH unfolding p
    by (cases m; cases arg) (simp_all add: Let_def split: if_splits)
qed

lemma zip_split_at:
  "i < length xs \<Longrightarrow> i < length ys \<Longrightarrow>
     zip xs ys = zip (take i xs) (take i ys) @ (xs ! i, ys ! i) # zip (drop (Suc i) xs) (drop (Suc i) ys)"
proof (induction i arbitrary: xs ys)
  case 0
  then show ?case by (cases xs; cases ys) simp_all
next
  case (Suc i)
  then show ?case by (cases xs; cases ys) simp_all
qed

lemma matches_first_failure:
  assumes i: "i < length bargs" "i < length pats"
    and t: "Action_matches ev (take i pats) src (take i bargs) = Ret True"
  shows "Action_matches ev pats src bargs =
           matches_loop ev src ((bargs ! i, pats ! i) # zip (drop (Suc i) bargs) (drop (Suc i) pats))"
proof -
  have "matches_loop ev src (zip (take i bargs) (take i pats)) = Ret True"
    using t by (simp add: Action_matches_def)
  from matches_loop_append [OF this] show ?thesis
    unfolding Action_matches_def by (simp only: zip_split_at [OF i])
qed

lemma matches_loop_selectors:
  "(\<forall>p \<in> set ps. snd p = PNone \<or> (\<exists>n. snd p = PSel n)) \<Longrightarrow>
     matches_loop ev src ps = Ret True \<or> matches_loop ev src ps = Ret False"
proof (induction ps)
  case Nil
  show ?case by simp
next
  case (Cons p ps)
  obtain arg m where p: "p = (arg, m)" by (cases p)
  show ?case using Cons.prems Cons.IH unfolding p
    by (cases m; cases arg) (simp_all add: Let_def)
qed

lemma pattern_args_selectors:
  "m \<in> set (pattern_args ps) \<Longrightarrow> m = PNone \<or> (\<exists>n. m = PSel n)"
  by (auto simp: pattern_args_def split: option.splits)

lemma pattern_matches_returns:
  "Action_matches ev (pattern_args ps) src bargs = Ret True \<or>
   Action_matches ev (pattern_args ps) src bargs = Ret False"
  unfolding Action_matches_def
proof (rule matches_loop_selectors, rule ballI)
  fix p assume m: "p \<in> set (zip bargs (pattern_args ps))"
  obtain a b where p: "p = (a, b)" by (cases p)
  have "snd p \<in> set (pattern_args ps)"
    using m unfolding p by (auto dest: set_zip_rightD)
  then show "snd p = PNone \<or> (\<exists>n. snd p = PSel n)" by (rule pattern_args_selectors)
qed

lemma matches_all_wildcards:
  "(\<forall>m \<in> set pats. m = PNone) \<Longrightarrow> Action_matches ev pats src bargs = Ret True"
  unfolding Action_matches_def matches_loop_iff
proof (rule ballI)
  fix p assume m: "p \<in> set (zip bargs pats)" and w: "\<forall>m \<in> set pats. m = PNone"
  obtain a b where p: "p = (a, b)" by (cases p)
  have "b \<in> set pats" using m unfolding p by (auto dest: set_zip_rightD)
  then show "snd p = PNone \<or>
     (\<exists>a n. fst p = Some a \<and> snd p = PSel n \<and>
            ev (PSel n) [a] src \<noteq> [] \<and> hd (ev (PSel n) [a] src) = a)"
    using w by (simp add: p)
qed

text \<open>
  C7. A trigger pattern matches a broadcast, that is \<open>matches\<close> returns \<open>True\<close>, exactly
  when every pattern argument that is paired with a broadcast argument is \<open>None\<close> (the
  wildcard), or is a selector, the broadcast argument is not \<open>None\<close>, and the selector,
  evaluated on that one argument, selects it: the result is not empty and its first
  element is the very same object.  The first pair that is not of this kind decides
  what happens otherwise: \<open>matches\<close> returns \<open>False\<close> when the broadcast argument is
  \<open>None\<close> and when the selector does not answer with that object first, and it raises
  \<open>AttributeError\<close> when the pattern argument is not a selector.
\<close>

theorem matches_wildcard_or_identical:
  "(Action_matches ev pats src bargs = Ret True \<longleftrightarrow>
      (\<forall>p \<in> set (zip bargs pats).
         snd p = PNone \<or>
         (\<exists>a n. fst p = Some a \<and> snd p = PSel n \<and>
                ev (PSel n) [a] src \<noteq> [] \<and> hd (ev (PSel n) [a] src) = a))) \<and>
   (i < length bargs \<and> i < length pats \<and>
    Action_matches ev (take i pats) src (take i bargs) = Ret True \<and> pats ! i \<noteq> PNone \<longrightarrow>
      (bargs ! i = None \<longrightarrow> Action_matches ev pats src bargs = Ret False) \<and>
      (\<forall>a n. bargs ! i = Some a \<and> pats ! i = PSel n \<and>
             (ev (PSel n) [a] src = [] \<or> hd (ev (PSel n) [a] src) \<noteq> a) \<longrightarrow>
             Action_matches ev pats src bargs = Ret False) \<and>
      (\<forall>a. bargs ! i = Some a \<and> (\<forall>n. pats ! i \<noteq> PSel n) \<longrightarrow>
           Action_matches ev pats src bargs = Raise AttributeError))"
proof (intro conjI impI allI)
  show "Action_matches ev pats src bargs = Ret True \<longleftrightarrow>
      (\<forall>p \<in> set (zip bargs pats).
         snd p = PNone \<or>
         (\<exists>a n. fst p = Some a \<and> snd p = PSel n \<and>
                ev (PSel n) [a] src \<noteq> [] \<and> hd (ev (PSel n) [a] src) = a))"
    unfolding Action_matches_def by (rule matches_loop_iff)
next
  assume a: "i < length bargs \<and> i < length pats \<and>
    Action_matches ev (take i pats) src (take i bargs) = Ret True \<and> pats ! i \<noteq> PNone"
    and n: "bargs ! i = None"
  then have e: "Action_matches ev pats src bargs =
           matches_loop ev src ((bargs ! i, pats ! i) # zip (drop (Suc i) bargs) (drop (Suc i) pats))"
    by (intro matches_first_failure) simp_all
  show "Action_matches ev pats src bargs = Ret False"
    unfolding e using a n by simp
next
  fix a n
  assume a: "i < length bargs \<and> i < length pats \<and>
    Action_matches ev (take i pats) src (take i bargs) = Ret True \<and> pats ! i \<noteq> PNone"
    and n: "bargs ! i = Some a \<and> pats ! i = PSel n \<and>
             (ev (PSel n) [a] src = [] \<or> hd (ev (PSel n) [a] src) \<noteq> a)"
  then have e: "Action_matches ev pats src bargs =
           matches_loop ev src ((bargs ! i, pats ! i) # zip (drop (Suc i) bargs) (drop (Suc i) pats))"
    by (intro matches_first_failure) simp_all
  show "Action_matches ev pats src bargs = Ret False"
    unfolding e using a n by (auto simp: Let_def)
next
  fix a
  assume a: "i < length bargs \<and> i < length pats \<and>
    Action_matches ev (take i pats) src (take i bargs) = Ret True \<and> pats ! i \<noteq> PNone"
    and n: "bargs ! i = Some a \<and> (\<forall>n. pats ! i \<noteq> PSel n)"
  then have e: "Action_matches ev pats src bargs =
           matches_loop ev src ((bargs ! i, pats ! i) # zip (drop (Suc i) bargs) (drop (Suc i) pats))"
    by (intro matches_first_failure) simp_all
  show "Action_matches ev pats src bargs = Raise AttributeError"
    unfolding e using a n by (cases "pats ! i") simp_all
qed

theorem matches_wildcard_or_identical_witness:
  "Action_matches example_eval [PNone, PSel 0] 7 [Some (Ref (PEnt 1)), Some (Ref (PEnt 2))] = Ret True \<and>
   Action_matches example_eval [PNone, PSel 0] 7 [None, Some (Held 1 (PInt 5))] = Ret True \<and>
   Action_matches example_eval [PNone, PSel 2] 7 [None, Some (Ref (PEnt 2))] = Ret True \<and>
   Action_matches example_eval [PNone, PSel 2] 7 [None, Some (Held 1 (PInt 5))] = Ret False \<and>
   Action_matches example_eval [PNone, PSel 1] 7 [None, Some (Ref (PEnt 2))] = Ret False \<and>
   Action_matches example_eval [PNone, PSel 0] 7 [Some (Ref (PEnt 1)), None] = Ret False \<and>
   Action_matches example_eval [PNone, PInt 5] 7 [None, Some (Held 1 (PInt 5))] =
     Raise AttributeError \<and>
   Action_matches example_eval [PNone, PInt 5] 7 [Some (Held 0 (PInt 5)), None] = Ret False"
  using matches_wildcard_or_identical
          [where ev = example_eval and pats = "[PNone, PSel 0]" and src = 7
             and bargs = "[Some (Ref (PEnt 1)), Some (Ref (PEnt 2))]" and i = 1]
        matches_wildcard_or_identical
          [where ev = example_eval and pats = "[PNone, PSel 0]" and src = 7
             and bargs = "[None, Some (Held 1 (PInt 5))]" and i = 1]
        matches_wildcard_or_identical
          [where ev = example_eval and pats = "[PNone, PSel 2]" and src = 7
             and bargs = "[None, Some (Ref (PEnt 2))]" and i = 1]
        matches_wildcard_or_identical
          [where ev = example_eval and pats = "[PNone, PSel 2]" and src = 7
             and bargs = "[None, Some (Held 1 (PInt 5))]" and i = 1]
        matches_wildcard_or_identical
          [where ev = example_eval and pats = "[PNone, PSel 1]" and src = 7
             and bargs = "[None, Some (Ref (PEnt 2))]" and i = 1]
        matches_wildcard_or_identical
          [where ev = example_eval and pats = "[PNone, PSel 0]" and src = 7
             and bargs = "[Some (Ref (PEnt 1)), None]" and i = 1]
        matches_wildcard_or_identical
          [where ev = example_eval and pats = "[PNone, PInt 5]" and src = 7
             and bargs = "[None, Some (Held 1 (PInt 5))]" and i = 1]
        matches_wildcard_or_identical
          [where ev = example_eval and pats = "[PNone, PInt 5]" and src = 7
             and bargs = "[Some (Held 0 (PInt 5)), None]" and i = 1]
  by (simp add: example_eval_def Action_matches_def)

subsection \<open>Deriving and repeating actions\<close>

lemma filter_absent_key:
  "k \<notin> set (map fst kws) \<Longrightarrow> filter (\<lambda>kv. fst kv \<noteq> k) kws = kws"
  by (induction kws) auto

lemma construct_constructed: "constructed (construct c as kws)"
  by (auto simp: constructed_def construct_def TargetedAction_init_def Action_init_def)

lemma times_update_constructed: "constructed a \<Longrightarrow> constructed (a\<lparr>times_val := n\<rparr>)"
  by (auto simp: constructed_def split: if_splits)

lemma map_of_absent: "k \<notin> set (map fst kws) \<Longrightarrow> map_of kws k = None"
  by (induction kws) auto

lemma construct_from_stored:
  "constructed a \<Longrightarrow>
     construct (cls a) (args a) (kwargs a) =
       \<lparr>cls = cls a, args = args a, kwargs = kwargs a, callback = [], times_val = PInt 1,
        event_queue = [],
        source = (if issubclass (cls a) TargetedAction then Some PNone else None),
        trigger_index = (if issubclass (cls a) TargetedAction then Some 0 else None)\<rparr>"
  by (auto simp: constructed_def construct_def TargetedAction_init_def Action_init_def
        filter_absent_key map_of_absent split: if_splits)

lemma then_eq:
  "self < length h \<Longrightarrow>
     Action_then h self rs =
       (length h, h @ [(construct (cls (h ! self)) (args (h ! self)) (kwargs (h ! self)))
                   \<lparr>callback := rs, times_val := times_val (h ! self)\<rparr>])"
  by (simp add: Action_then_def alloc_def Let_def nth_append)


text \<open>
  What \<open>then\<close> does: it returns a new object (an address that was not in use), built by
  the constructor of the class of \<open>a\<close> from the stored positional and keyword arguments
  of \<open>a\<close>, with \<open>callback\<close> set to \<open>rs\<close> and \<open>times\<close> copied from \<open>a\<close>; its
  deferred-broadcast queue is empty.  Every object that existed before, \<open>a\<close> included, is
  unchanged in every field.  The stored keyword arguments of a targeted action are the
  original ones without \<open>source\<close>, so the new object has no redirect.
\<close>

lemma then_builds_from_stored:
  "self < length h \<Longrightarrow> constructed (h ! self) \<Longrightarrow>
     (case Action_then h self rs of (r, h') \<Rightarrow>
        r = length h \<and> r \<noteq> self \<and> length h' = Suc (length h) \<and>
        take (length h) h' = h \<and> h' ! self = h ! self \<and>
        h' ! r = (construct (cls (h ! self)) (args (h ! self)) (kwargs (h ! self)))
                   \<lparr>callback := rs, times_val := times_val (h ! self)\<rparr> \<and>
        cls (h' ! r) = cls (h ! self) \<and> args (h' ! r) = args (h ! self) \<and>
        kwargs (h' ! r) = kwargs (h ! self) \<and> callback (h' ! r) = rs \<and>
        times_val (h' ! r) = times_val (h ! self) \<and> event_queue (h' ! r) = [] \<and>
        source (h' ! r) = (if issubclass (cls (h ! self)) TargetedAction then Some PNone else None))"
proof -
  assume len: "self < length h" and c: "constructed (h ! self)"
  show ?thesis
    unfolding then_eq [OF len] construct_from_stored [OF c]
    using len by (simp add: nth_append)
qed

lemma example_heap_then:
  "Action_then example_heap 0 [PAct 1] =
     (2, example_heap @
           [(construct (TargetedActionSub Hit) [PSel 3, PInt 2] [])
              \<lparr>callback := [PAct 1], times_val := PInt 4\<rparr>])"
  by (simp add: example_heap_def Action_then_def alloc_def Let_def construct_def
        TargetedAction_init_def Action_init_def)

text \<open>
  C8 fails on an action that was constructed with a redirect.  The first action of the
  example heap is \<open>Hit(sel 3, 2, source=sel 5) * 4\<close>.  \<open>then\<close> returns a new object and
  leaves the old ones alone, and the new object has the positional arguments, the
  repeat count and the callback that the claim gives it; but it is the action
  \<open>Hit(sel 3, 2)\<close>, not the action built from the original arguments
  \<open>Hit(sel 3, 2, source=sel 5)\<close>: its redirect is \<open>None\<close>.  Triggered by entity 10 in a
  game where selector 5 selects entity 11, the original acts for entity 11 and the
  derived action for entity 10.
\<close>

theorem then_loses_source_redirect:
  "example_heap ! 0 =
     (construct (TargetedActionSub Hit) [PSel 3, PInt 2] [(''source'', PSel 5)])
       \<lparr>times_val := PInt 4\<rparr> \<and>
   fst (Action_then example_heap 0 [PAct 1]) = 2 \<and>
   take 2 (snd (Action_then example_heap 0 [PAct 1])) = example_heap \<and>
   args (snd (Action_then example_heap 0 [PAct 1]) ! 2) = [PSel 3, PInt 2] \<and>
   callback (snd (Action_then example_heap 0 [PAct 1]) ! 2) = [PAct 1] \<and>
   times_val (snd (Action_then example_heap 0 [PAct 1]) ! 2) = PInt 4 \<and>
   source (example_heap ! 0) = Some (PSel 5) \<and>
   source (snd (Action_then example_heap 0 [PAct 1]) ! 2) = Some PNone \<and>
   snd (Action_then example_heap 0 [PAct 1]) ! 2 \<noteq>
     (construct (TargetedActionSub Hit) [PSel 3, PInt 2] [(''source'', PSel 5)])
       \<lparr>callback := [PAct 1], times_val := PInt 4\<rparr> \<and>
   snd (Action_then example_heap 0 [PAct 1]) ! 2 =
     (construct (TargetedActionSub Hit) [PSel 3, PInt 2] [])
       \<lparr>callback := [PAct 1], times_val := PInt 4\<rparr> \<and>
   resolve_source (example_ext\<lparr>selector_eval_game := (\<lambda>m e w. [PEnt 11])\<rparr>)
     (example_heap ! 0) 10 example_state = Ret 11 \<and>
   resolve_source (example_ext\<lparr>selector_eval_game := (\<lambda>m e w. [PEnt 11])\<rparr>)
     (snd (Action_then example_heap 0 [PAct 1]) ! 2) 10 example_state = Ret 10"
  unfolding example_heap_then
  by (simp add: example_heap_def construct_def TargetedAction_init_def Action_init_def
        resolve_source_def example_ext_def)

text \<open>
  C9. \<open>a * n\<close> on a targeted action returns the very reference \<open>a\<close>, and the object at
  that reference now has \<open>times = n\<close> with every other field as before: the change is made
  in place, so whoever holds \<open>a\<close> sees it.  No other object changes and none is created.
\<close>

theorem mul_mutates_in_place:
  "self < length h \<Longrightarrow>
     (case TargetedAction_mul h self n of (r, h') \<Rightarrow>
        r = self \<and> length h' = length h \<and>
        h' ! self = (h ! self)\<lparr>times_val := n\<rparr> \<and> times_val (h' ! r) = n \<and>
        (\<forall>b. b \<noteq> self \<longrightarrow> h' ! b = h ! b))"
  by (simp add: TargetedAction_mul_def)

theorem mul_mutates_in_place_witness:
  "(0::nat) < length example_heap \<and>
   fst (TargetedAction_mul example_heap 0 (PInt 3)) = 0 \<and>
   times_val (snd (TargetedAction_mul example_heap 0 (PInt 3)) ! 0) = PInt 3 \<and>
   snd (TargetedAction_mul example_heap 0 (PInt 3)) ! 1 = example_heap ! 1"
proof -
  have len: "(0::nat) < length example_heap" by (simp add: example_heap_def)
  show ?thesis
    using mul_mutates_in_place [OF len, of "PInt 3"]
    by (simp add: example_heap_def TargetedAction_mul_def)
qed

subsection \<open>Ending the turn\<close>

text \<open>
  C4. When the player has an open choice, \<open>EndTurn.do\<close> raises \<open>InvalidAction\<close> and the
  state at that moment is the state it was called in: nothing was written, nothing was
  broadcast and no collaborator was called.  When the player has no open choice it does
  not raise: it broadcasts and ends the turn.  Through \<open>trigger\<close>, the only thing that
  happens before the exception is the manager's hook that announces the action.
\<close>

theorem EndTurn_open_choice_raises:
  "(choice (wld s) player \<noteq> None \<longrightarrow> EndTurn_do X src player s = (Raise InvalidAction, s)) \<and>
   (choice (wld s) player = None \<longrightarrow>
      EndTurn_do X src player s =
        (Ret PNone,
         ext_do EndTurnCall (end_turn X)
           (Action_broadcast X (GameActionSub EndTurn) src ON [PEnt player] s))) \<and>
   (args (objs s ! self) = [PEnt player] \<and>
    choice (manager_action X (PAct self) src [PEnt player] (wld s)) player \<noteq> None \<longrightarrow>
      EndTurn_trigger X self src s =
        (Raise InvalidAction,
         ext_do (ManagerAction (PAct self) src [PEnt player])
           (manager_action X (PAct self) src [PEnt player]) s))"
  by (simp add: EndTurn_do_def EndTurn_trigger_def GameAction_trigger_def Action_get_args_def
        EndTurn_do_args_def Let_def ext_do_def)

theorem EndTurn_open_choice_raises_witness:
  "choice (wld open_choice_state) 10 \<noteq> None \<and>
   EndTurn_do example_ext 10 10 open_choice_state = (Raise InvalidAction, open_choice_state) \<and>
   choice (wld open_choice_state) 11 = None \<and>
   fst (EndTurn_do example_ext 11 11 open_choice_state) = Ret PNone \<and>
   trace (snd (EndTurn_do example_ext 11 11 open_choice_state)) = [EndTurnCall]"
  using EndTurn_open_choice_raises
          [where s = open_choice_state and player = 10 and X = example_ext and src = 10 and self = 0]
        EndTurn_open_choice_raises
          [where s = open_choice_state and player = 11 and X = example_ext and src = 11 and self = 0]
  by (simp add: open_choice_state_def example_state_def example_world_def ext_do_def
        Action_broadcast_def Action_broadcast_entity_def)

subsection \<open>Bounce\<close>

text \<open>
  C6. When the hand of the target's controller is at or above \<open>max_hand_size\<close>,
  \<open>Bounce.do\<close> creates \<open>Destroy(target)\<close> and hands it to the queue manager; that is
  its only call, so the zone of the target is not assigned.  When the hand has room, it
  assigns \<open>Zone.HAND\<close> to the zone of the target; that is its only call, and no action is
  created or queued.
\<close>

theorem Bounce_full_hand_destroys:
  "(max_hand_size (wld s) (controller (wld s) target)
      \<le> int (length (hand (wld s) (controller (wld s) target))) \<longrightarrow>
      (case Bounce_do X src target s of
         (r, s') \<Rightarrow>
           own_calls s' = own_calls s @ [QueueActions src [PAct (length (objs s))] None] \<and>
           trace s' = trace s @ [QueueActions src [PAct (length (objs s))] None] \<and>
           objs s' = objs s @ [construct (TargetedActionSub Destroy) [PEnt target] []] \<and>
           cls (objs s' ! length (objs s)) = TargetedActionSub Destroy \<and>
           args (objs s' ! length (objs s)) = [PEnt target] \<and>
           r = Ret (PList (fst (queue_actions X src [PAct (length (objs s))] None (objs s') (wld s)))) \<and>
           wld s' = snd (queue_actions X src [PAct (length (objs s))] None (objs s') (wld s)))) \<and>
   (int (length (hand (wld s) (controller (wld s) target)))
      < max_hand_size (wld s) (controller (wld s) target) \<longrightarrow>
      Bounce_do X src target s =
        (Ret PNone, s\<lparr>wld := zone_setter X target HAND (wld s), trace := trace s @ [SetZone target HAND]\<rparr>))"
  by (simp add: Bounce_do_def new_action_def queue_actions_call_def Let_def split_beta
        own_calls_def set_zone_def ext_do_def construct_def TargetedAction_init_def Action_init_def)

theorem Bounce_full_hand_destroys_witness:
  "max_hand_size (wld full_hand_state) (controller (wld full_hand_state) 1)
      \<le> int (length (hand (wld full_hand_state) (controller (wld full_hand_state) 1))) \<and>
   trace (snd (Bounce_do example_ext 2 1 full_hand_state)) = [QueueActions 2 [PAct 0] None] \<and>
   cls (objs (snd (Bounce_do example_ext 2 1 full_hand_state)) ! 0) = TargetedActionSub Destroy \<and>
   int (length (hand (wld example_state) (controller (wld example_state) 1)))
      < max_hand_size (wld example_state) (controller (wld example_state) 1) \<and>
   trace (snd (Bounce_do example_ext 2 1 example_state)) = [SetZone 1 HAND] \<and>
   objs (snd (Bounce_do example_ext 2 1 example_state)) = []"
  using Bounce_full_hand_destroys
          [where s = full_hand_state and target = 1 and X = example_ext and src = 2]
        Bounce_full_hand_destroys
          [where s = example_state and target = 1 and X = example_ext and src = 2]
  by (simp add: full_hand_state_def example_state_def example_world_def example_ext_def split_beta
        Bounce_do_def new_action_def queue_actions_call_def set_zone_def ext_do_def
        construct_def TargetedAction_init_def Action_init_def own_calls_def)

subsection \<open>Give\<close>

lemma give_loop_entities:
  "\<exists>placed s'. give_loop X t (map PEnt cs) ret s = (Ret (PList (ret @ map PEnt placed)), s') \<and>
       subseq placed cs \<and> trace s' = trace s @ map (\<lambda>c. SetZone c HAND) placed \<and>
       objs s' = objs s"
proof (induction cs arbitrary: ret s)
  case Nil
  show ?case by simp
next
  case (Cons c cs)
  show ?case
  proof (cases "max_hand_size (wld s) t \<le> int (length (hand (wld s) t))")
    case True
    from Cons.IH [of ret s] obtain placed s' where
      h: "give_loop X t (map PEnt cs) ret s = (Ret (PList (ret @ map PEnt placed)), s')"
         "subseq placed cs" "trace s' = trace s @ map (\<lambda>c. SetZone c HAND) placed"
         "objs s' = objs s" by blast
    show ?thesis
      using h True by (intro exI [of _ placed] exI [of _ s']) (simp add: list_emb_Cons)
  next
    case False
    define s2 where "s2 = set_zone X c HAND
        (s\<lparr>wld := (wld s)\<lparr>controller := (controller (wld s))(c := t)\<rparr>\<rparr>)"
    have t2: "trace s2 = trace s @ [SetZone c HAND]" and o2: "objs s2 = objs s"
      by (simp_all add: s2_def set_zone_def ext_do_def)
    from Cons.IH [of "ret @ [PEnt c]" s2] obtain placed s' where
      h: "give_loop X t (map PEnt cs) (ret @ [PEnt c]) s2 = (Ret (PList ((ret @ [PEnt c]) @ map PEnt placed)), s')"
         "subseq placed cs" "trace s' = trace s2 @ map (\<lambda>c. SetZone c HAND) placed"
         "objs s' = objs s2" by blast
    show ?thesis
      using h False t2 o2
      by (intro exI [of _ "c # placed"] exI [of _ s']) (simp add: s2_def Let_def)
  qed
qed

lemma give_loop_acc:
  "give_loop X t xs ret s =
     (case give_loop X t xs [] s of
        (Ret (PList r), s') \<Rightarrow> (Ret (PList (ret @ r)), s')
      | (v, s') \<Rightarrow> (v, s'))"
proof (induction xs arbitrary: ret s)
  case Nil
  show ?case by simp
next
  case (Cons x xs)
  show ?case
  proof (cases "max_hand_size (wld s) t \<le> int (length (hand (wld s) t))")
    case True
    then show ?thesis using Cons.IH [of ret s] by simp
  next
    case False
    show ?thesis
    proof (cases x)
      case (PEnt c)
      define s2 where "s2 = set_zone X c HAND
        (s\<lparr>wld := (wld s)\<lparr>controller := (controller (wld s))(c := t)\<rparr>\<rparr>)"
      have a: "give_loop X t (x # xs) ret s = give_loop X t xs (ret @ [x]) s2"
        and b: "give_loop X t (x # xs) [] s = give_loop X t xs [x] s2"
        using False PEnt by (simp_all add: s2_def Let_def)
      show ?thesis
        unfolding a b
        using Cons.IH [of "ret @ [x]" s2] Cons.IH [of "[x]" s2]
        by (auto split: prod.splits res.splits pyval.splits)
    qed (use False in simp_all)
  qed
qed



text \<open>
  C10. \<open>Give.do\<close> on a list of cards never raises.  The list it returns is a
  subsequence of the given cards in their order, and the calls it makes are exactly the
  assignments of \<open>Zone.HAND\<close> to the returned cards, in that order: no card is
  discarded, and no action (such as \<open>Destroy\<close>) is created or queued.  A card that is
  reached while the hand of the target is at \<open>max_hand_size\<close> is skipped: the outcome is
  that of the same call without the card.  A card reached while there is room gets the
  target as controller and \<open>Zone.HAND\<close> as zone, and comes first in the returned list.
  A single card that is not a list is treated as the list of that card.
\<close>

theorem Give_skips_when_hand_full:
  "(\<exists>placed s'.
      Give_do X src target (PList (map PEnt cs)) s = (Ret (PList (map PEnt placed)), s') \<and>
      subseq placed cs \<and>
      trace s' = trace s @ map (\<lambda>c. SetZone c HAND) placed \<and>
      objs s' = objs s) \<and>
   Give_do X src target (PEnt c) s = Give_do X src target (PList [PEnt c]) s \<and>
   (max_hand_size (wld s) target \<le> int (length (hand (wld s) target)) \<longrightarrow>
      Give_do X src target (PList (PEnt c # map PEnt cs)) s =
        Give_do X src target (PList (map PEnt cs)) s) \<and>
   (int (length (hand (wld s) target)) < max_hand_size (wld s) target \<longrightarrow>
      (\<exists>placed s'.
         Give_do X src target (PList (map PEnt cs))
           (set_zone X c HAND (s\<lparr>wld := (wld s)\<lparr>controller := (controller (wld s))(c := target)\<rparr>\<rparr>))
           = (Ret (PList (map PEnt placed)), s') \<and>
         Give_do X src target (PList (PEnt c # map PEnt cs)) s
           = (Ret (PList (map PEnt (c # placed))), s')))"
proof (intro conjI impI)
  show "\<exists>placed s'.
      Give_do X src target (PList (map PEnt cs)) s = (Ret (PList (map PEnt placed)), s') \<and>
      subseq placed cs \<and>
      trace s' = trace s @ map (\<lambda>c. SetZone c HAND) placed \<and>
      objs s' = objs s"
    using give_loop_entities [of X target cs "[]" s] by (simp add: Give_do_def)
next
  show "Give_do X src target (PEnt c) s = Give_do X src target (PList [PEnt c]) s"
    by (simp add: Give_do_def)
next
  assume "max_hand_size (wld s) target \<le> int (length (hand (wld s) target))"
  then show "Give_do X src target (PList (PEnt c # map PEnt cs)) s =
        Give_do X src target (PList (map PEnt cs)) s"
    by (simp add: Give_do_def)
next
  assume room: "int (length (hand (wld s) target)) < max_hand_size (wld s) target"
  define s2 where "s2 = set_zone X c HAND
      (s\<lparr>wld := (wld s)\<lparr>controller := (controller (wld s))(c := target)\<rparr>\<rparr>)"
  from give_loop_entities [of X target cs "[]" s2] obtain placed s' where
    h: "give_loop X target (map PEnt cs) [] s2 = (Ret (PList (map PEnt placed)), s')"
    by auto
  have "give_loop X target (PEnt c # map PEnt cs) [] s = give_loop X target (map PEnt cs) [PEnt c] s2"
    using room by (simp add: s2_def Let_def)
  also have "\<dots> = (Ret (PList (PEnt c # map PEnt placed)), s')"
    by (subst give_loop_acc) (simp add: h)
  finally have "Give_do X src target (PList (PEnt c # map PEnt cs)) s
           = (Ret (PList (map PEnt (c # placed))), s')"
    by (simp add: Give_do_def)
  with h show "\<exists>placed s'.
         Give_do X src target (PList (map PEnt cs))
           (set_zone X c HAND (s\<lparr>wld := (wld s)\<lparr>controller := (controller (wld s))(c := target)\<rparr>\<rparr>))
           = (Ret (PList (map PEnt placed)), s') \<and>
         Give_do X src target (PList (PEnt c # map PEnt cs)) s
           = (Ret (PList (map PEnt (c # placed))), s')"
    unfolding s2_def [symmetric] by (auto simp: Give_do_def)
qed

lemma Give_example:
  "Give_do example_ext 2 10 (PList [PEnt 1, PEnt 2, PEnt 3]) two_cards_state =
     (Ret (PList [PEnt 1]),
      two_cards_state\<lparr>wld := (wld two_cards_state)\<lparr>controller := (controller (wld two_cards_state))(1 := 10), hand := (\<lambda>p. if p = 10 then [5, 6, 1] else [])\<rparr>,
        trace := [SetZone 1 HAND]\<rparr>)"
  by (simp add: Give_do_def two_cards_state_def example_state_def example_world_def
        example_ext_def set_zone_def ext_do_def Let_def fun_eq_iff)


theorem Give_skips_when_hand_full_witness:
  "max_hand_size (wld full_hand_state) 10 \<le> int (length (hand (wld full_hand_state) 10)) \<and>
   Give_do example_ext 2 10 (PList [PEnt 1]) full_hand_state =
     Give_do example_ext 2 10 (PList []) full_hand_state \<and>
   int (length (hand (wld two_cards_state) 10)) < max_hand_size (wld two_cards_state) 10 \<and>
   fst (Give_do example_ext 2 10 (PList [PEnt 1, PEnt 2, PEnt 3]) two_cards_state)
     = Ret (PList [PEnt 1]) \<and>
   trace (snd (Give_do example_ext 2 10 (PList [PEnt 1, PEnt 2, PEnt 3]) two_cards_state))
     = [SetZone 1 HAND]"
  using Give_skips_when_hand_full
          [where X = example_ext and src = 2 and target = 10 and cs = "[]" and c = 1
             and s = full_hand_state]
        Give_example
  by (simp add: full_hand_state_def two_cards_state_def example_state_def example_world_def)

subsection \<open>Generic choices\<close>

lemma choose_loop_append:
  "choose_loop X p crd (xs @ ys) s = choose_loop X p crd ys (choose_loop X p crd xs s)"
  by (induction xs arbitrary: s) simp_all

lemma choose_loop_others:
  "crd \<notin> set cs \<Longrightarrow> choose_loop X p crd cs s = fold (discard_card X) cs s"
  by (induction cs arbitrary: s) auto

lemma choose_offered:
  "crd \<notin> set xs \<Longrightarrow> crd \<notin> set ys \<Longrightarrow>
   choose_loop X p crd (xs @ crd # ys) s =
     fold (discard_card X) ys
       (let s1 = fold (discard_card X) xs s
        in if card_type (wld s1) crd = HERO_POWER then set_zone X crd PLAY s1
           else if int (length (hand (wld s1) p)) < max_hand_size (wld s1) p
                then set_zone X crd HAND s1
                else discard_card X crd s1)"
  by (simp add: choose_loop_append choose_loop_others Let_def)

lemma choose_not_offered:
  "crd \<notin> set (ch_cards self) \<Longrightarrow>
   GenericChoice_choose X self crd s =
     (Ret PNone,
      (fold (discard_card X) (ch_cards self) s)
        \<lparr>wld := (wld (fold (discard_card X) (ch_cards self) s))
           \<lparr>choice := (choice (wld (fold (discard_card X) (ch_cards self) s)))(ch_player self := None)\<rparr>\<rparr>)"
  by (simp add: GenericChoice_choose_def choose_loop_others Let_def)

text \<open>
  C1. A choice is opened for player 10 over the cards 1, 2 and 3, and \<open>choose\<close> is
  called with card 9, which was not offered.  The call returns normally: it raises
  nothing, discards all three offered cards and clears the choice of the player.
  (\<open>MulliganChoice.choose\<close> asserts \<open>card in self.cards\<close>; \<open>GenericChoice.choose\<close>
  has no such check.  For an offered card, \<open>choose_offered\<close> above gives the outcome:
  the cards before it are discarded, the chosen card is put into play, into the hand or
  discarded, and the cards after it are discarded.)
\<close>

theorem choose_unoffered_card_accepted:
  "choice (wld (snd (GenericChoice_do 10 10 [1, 2, 3] example_state))) 10
     = Some \<lparr>ch_player = 10, ch_cards = [1, 2, 3]\<rparr> \<and>
   (9::nat) \<notin> set [1, 2, 3] \<and>
   fst (GenericChoice_choose example_ext \<lparr>ch_player = 10, ch_cards = [1, 2, 3]\<rparr> 9
          (snd (GenericChoice_do 10 10 [1, 2, 3] example_state))) = Ret PNone \<and>
   trace (snd (GenericChoice_choose example_ext \<lparr>ch_player = 10, ch_cards = [1, 2, 3]\<rparr> 9
          (snd (GenericChoice_do 10 10 [1, 2, 3] example_state))))
     = [CardDiscard 1, CardDiscard 2, CardDiscard 3] \<and>
   choice (wld (snd (GenericChoice_choose example_ext \<lparr>ch_player = 10, ch_cards = [1, 2, 3]\<rparr> 9
          (snd (GenericChoice_do 10 10 [1, 2, 3] example_state))))) 10 = None"
  by (simp add: GenericChoice_do_def GenericChoice_choose_def example_state_def example_world_def
        example_ext_def discard_card_def set_zone_def ext_do_def Let_def)

lemma choose_offered_example:
  "fst (GenericChoice_choose example_ext \<lparr>ch_player = 10, ch_cards = [1, 2, 3]\<rparr> 2
          (snd (GenericChoice_do 10 10 [1, 2, 3] example_state))) = Ret PNone \<and>
   trace (snd (GenericChoice_choose example_ext \<lparr>ch_player = 10, ch_cards = [1, 2, 3]\<rparr> 2
          (snd (GenericChoice_do 10 10 [1, 2, 3] example_state))))
     = [CardDiscard 1, SetZone 2 HAND, CardDiscard 3]"
  by (simp add: GenericChoice_do_def GenericChoice_choose_def example_state_def example_world_def
        example_ext_def discard_card_def set_zone_def ext_do_def Let_def)

subsection \<open>Drawing from an empty deck\<close>








subsection \<open>Attacks\<close>

lemma broadcast_events_frame:
  "objs (broadcast_events X c e src ph bargs evs s) = objs s \<and>
   own_calls (broadcast_events X c e src ph bargs evs s) = own_calls s"
  by (induction evs arbitrary: s) (simp_all add: ext_do_def own_calls_def)

lemma broadcast_entities_frame:
  "objs (broadcast_entities X c src ph bargs es s) = objs s \<and>
   own_calls (broadcast_entities X c src ph bargs es s) = own_calls s"
  by (induction es arbitrary: s) (simp_all add: Action_broadcast_entity_def broadcast_events_frame)

lemma Action_broadcast_frame:
  "objs (Action_broadcast X c src ph bargs s) = objs s \<and>
   own_calls (Action_broadcast X c src ph bargs s) = own_calls s"
  by (simp add: Action_broadcast_def Let_def broadcast_entities_frame)

lemma Attack_announce_frame:
  "objs (Attack_announce X src a d s) = objs s \<and>
   own_calls (Attack_announce X src a d s) = own_calls s"
  by (simp add: Attack_announce_def Let_def Action_broadcast_frame) (simp add: own_calls_def)

lemma Attack_do_exit:
  "should_exit_combat (wld (Attack_announce X src attacker defender s)) attacker \<Longrightarrow>
   proposed_defender (wld (Attack_announce X src attacker defender s)) = Some d \<Longrightarrow>
   Attack_do X src attacker defender s =
     (Ret PNone,
      (Attack_announce X src attacker defender s)
        \<lparr>wld := (wld (Attack_announce X src attacker defender s))
           \<lparr>proposed_attacker := None, proposed_defender := None,
            attack_target := (attack_target (wld (Attack_announce X src attacker defender s)))
                               (attacker := None),
            defending := (defending (wld (Attack_announce X src attacker defender s)))
                               (d := False)\<rparr>\<rparr>)"
  by (simp add: Attack_do_def Let_def)


lemma own_calls_updates:
  "own_calls (s\<lparr>wld := w\<rparr>) = own_calls s"
  "own_calls (s\<lparr>objs := h\<rparr>) = own_calls s"
  "own_calls (s\<lparr>trace := trace s @ [c]\<rparr>) = own_calls s @ (if is_trigger_event c then [] else [c])"
  by (simp_all add: own_calls_def)

lemma objs_after_queue: "objs (snd (queue_actions_call X src as ea s)) = objs s"
  by (simp add: queue_actions_call_def split_beta)

lemma own_calls_after_queue:
  "own_calls (snd (queue_actions_call X src as ea s)) = own_calls s @ [QueueActions src as ea]"
  by (simp add: queue_actions_call_def split_beta own_calls_def)

lemma Attack_do_hits:
  assumes "\<not> should_exit_combat (wld (Attack_announce X src attacker defender s)) attacker"
    and "proposed_defender (wld (Attack_announce X src attacker defender s)) = Some d"
    and "attacker \<noteq> d"
  shows "fst (Attack_do X src attacker defender s) = Ret PNone \<and>
     own_calls (snd (Attack_do X src attacker defender s)) =
       own_calls s @ QueueActions attacker [PAct (length (objs s))] None #
         (if atk (wld (Attack_announce X src attacker defender s)) d \<noteq> 0
          then [QueueActions d [PAct (Suc (length (objs s)))] None] else [])"
  using assms
  by (simp add: Attack_do_def Let_def split_beta new_action_def Action_broadcast_frame
        own_calls_updates objs_after_queue own_calls_after_queue Attack_announce_frame)

text \<open>
  C3. Let the attack be announced (attacker and defender marked, the \<open>ON\<close> broadcast
  run), and let \<open>d\<close> be the defender that \<open>game.proposed_defender\<close> holds afterwards,
  retargeted or not.  If the attacker's \<open>should_exit_combat\<close> is set at that point,
  \<open>Attack.do\<close> returns without creating or queueing any action: no \<open>Hit\<close> exists, the
  only calls were the listeners' notifications of the broadcast.  It sets the attacker's
  \<open>attack_target\<close> to \<open>None\<close> and \<open>defending\<close> of \<open>d\<close> to \<open>False\<close>, and
  \<open>num_attacks\<close> of the attacker is what it was after the broadcast.  If the flag is
  not set at that point (and \<open>d\<close> is not the attacker), the first call after the
  broadcast queues \<open>Hit(d, attacker.atk)\<close>: the check stands between the two.
\<close>

theorem Attack_exit_combat_aborts:
  "proposed_defender (wld (Attack_announce X src attacker defender s)) = Some d \<Longrightarrow>
   (should_exit_combat (wld (Attack_announce X src attacker defender s)) attacker \<longrightarrow>
      (case Attack_do X src attacker defender s of
         (r, s') \<Rightarrow>
           r = Ret PNone \<and>
           own_calls s' = own_calls s \<and> objs s' = objs s \<and>
           trace s' = trace (Attack_announce X src attacker defender s) \<and>
           attack_target (wld s') attacker = None \<and>
           defending (wld s') d = False \<and>
           num_attacks (wld s') attacker
             = num_attacks (wld (Attack_announce X src attacker defender s)) attacker \<and>
           s' = (Attack_announce X src attacker defender s)
                  \<lparr>wld := (wld (Attack_announce X src attacker defender s))
                     \<lparr>proposed_attacker := None, proposed_defender := None,
                      attack_target := (attack_target (wld (Attack_announce X src attacker defender s)))
                                         (attacker := None),
                      defending := (defending (wld (Attack_announce X src attacker defender s)))
                                         (d := False)\<rparr>\<rparr>)) \<and>
   (\<not> should_exit_combat (wld (Attack_announce X src attacker defender s)) attacker \<and> attacker \<noteq> d \<longrightarrow>
      fst (Attack_do X src attacker defender s) = Ret PNone \<and>
      own_calls (snd (Attack_do X src attacker defender s)) =
        own_calls s @ QueueActions attacker [PAct (length (objs s))] None #
          (if atk (wld (Attack_announce X src attacker defender s)) d \<noteq> 0
           then [QueueActions d [PAct (Suc (length (objs s)))] None] else []))"
proof (intro conjI impI)
  assume d: "proposed_defender (wld (Attack_announce X src attacker defender s)) = Some d"
    and e: "should_exit_combat (wld (Attack_announce X src attacker defender s)) attacker"
  show "case Attack_do X src attacker defender s of
         (r, s') \<Rightarrow>
           r = Ret PNone \<and>
           own_calls s' = own_calls s \<and> objs s' = objs s \<and>
           trace s' = trace (Attack_announce X src attacker defender s) \<and>
           attack_target (wld s') attacker = None \<and>
           defending (wld s') d = False \<and>
           num_attacks (wld s') attacker
             = num_attacks (wld (Attack_announce X src attacker defender s)) attacker \<and>
           s' = (Attack_announce X src attacker defender s)
                  \<lparr>wld := (wld (Attack_announce X src attacker defender s))
                     \<lparr>proposed_attacker := None, proposed_defender := None,
                      attack_target := (attack_target (wld (Attack_announce X src attacker defender s)))
                                         (attacker := None),
                      defending := (defending (wld (Attack_announce X src attacker defender s)))
                                         (d := False)\<rparr>\<rparr>"
    unfolding Attack_do_exit [OF e d]
    by (simp add: own_calls_updates Attack_announce_frame)
next
  assume d: "proposed_defender (wld (Attack_announce X src attacker defender s)) = Some d"
    and "\<not> should_exit_combat (wld (Attack_announce X src attacker defender s)) attacker \<and> attacker \<noteq> d"
  then show "fst (Attack_do X src attacker defender s) = Ret PNone"
    using Attack_do_hits [of X src attacker defender s d] by simp
next
  assume d: "proposed_defender (wld (Attack_announce X src attacker defender s)) = Some d"
    and "\<not> should_exit_combat (wld (Attack_announce X src attacker defender s)) attacker \<and> attacker \<noteq> d"
  then show "own_calls (snd (Attack_do X src attacker defender s)) =
        own_calls s @ QueueActions attacker [PAct (length (objs s))] None #
          (if atk (wld (Attack_announce X src attacker defender s)) d \<noteq> 0
           then [QueueActions d [PAct (Suc (length (objs s)))] None] else [])"
    using Attack_do_hits [of X src attacker defender s d] by simp
qed

lemma announce_exit_example:
  "should_exit_combat (wld (Attack_announce example_ext 1 1 2 exit_listener_state)) 1 \<and>
   proposed_defender (wld (Attack_announce example_ext 1 1 2 exit_listener_state)) = Some 2 \<and>
   num_attacks (wld (Attack_announce example_ext 1 1 2 exit_listener_state)) 1 = 0"
  by (simp add: Attack_announce_def Action_broadcast_def Action_broadcast_entity_def
        exit_listener_state_def example_state_def example_world_def example_ext_def
        matches_all_wildcards pattern_args_def ext_do_def Let_def)

lemma announce_plain_example:
  "\<not> should_exit_combat (wld (Attack_announce example_ext 1 1 2 example_state)) 1 \<and>
   proposed_defender (wld (Attack_announce example_ext 1 1 2 example_state)) = Some 2 \<and>
   atk (wld (Attack_announce example_ext 1 1 2 example_state)) 2 = 2"
  by (simp add: Attack_announce_def Action_broadcast_def Action_broadcast_entity_def
        example_state_def example_world_def example_ext_def
        matches_all_wildcards pattern_args_def ext_do_def Let_def)

theorem Attack_exit_combat_aborts_witness:
  "should_exit_combat (wld (Attack_announce example_ext 1 1 2 exit_listener_state)) 1 \<and>
   proposed_defender (wld (Attack_announce example_ext 1 1 2 exit_listener_state)) = Some 2 \<and>
   fst (Attack_do example_ext 1 1 2 exit_listener_state) = Ret PNone \<and>
   own_calls (snd (Attack_do example_ext 1 1 2 exit_listener_state)) = [] \<and>
   objs (snd (Attack_do example_ext 1 1 2 exit_listener_state)) = [] \<and>
   attack_target (wld (snd (Attack_do example_ext 1 1 2 exit_listener_state))) 1 = None \<and>
   defending (wld (snd (Attack_do example_ext 1 1 2 exit_listener_state))) 2 = False \<and>
   num_attacks (wld (snd (Attack_do example_ext 1 1 2 exit_listener_state))) 1 = 0 \<and>
   \<not> should_exit_combat (wld (Attack_announce example_ext 1 1 2 example_state)) 1 \<and>
   own_calls (snd (Attack_do example_ext 1 1 2 example_state))
     = [QueueActions 1 [PAct 0] None, QueueActions 2 [PAct 1] None]"
proof -
  have o: "own_calls exit_listener_state = []" "objs exit_listener_state = []"
          "own_calls example_state = []" "objs example_state = []"
    by (simp_all add: exit_listener_state_def example_state_def own_calls_def)
  have ne: "(1::nat) \<noteq> 2" by simp
  show ?thesis
    using Attack_exit_combat_aborts
            [where X = example_ext and src = 1 and attacker = 1 and defender = 2
               and s = exit_listener_state and d = 2]
          Attack_exit_combat_aborts
            [where X = example_ext and src = 1 and attacker = 1 and defender = 2
               and s = example_state and d = 2]
          announce_exit_example announce_plain_example o
    by (simp add: split_beta own_calls_updates Attack_announce_frame)
qed

subsection \<open>Predamage and Damage\<close>


























end
